theory Spec2Isabelle
  imports Main "HOL-Library.Sublist"
begin

section \<open>Python strings\<close>

text \<open>
  A Python \<open>str\<close> is modelled as a \<open>string\<close> in which every \<open>char\<close> is one code point
  in the range 0..255. The functions below are the built-in string methods the
  repository calls, restricted to that range.
\<close>

definition py_isspace :: "char \<Rightarrow> bool" where
  \<comment> \<open>\<open>str.isspace\<close> on one code point below 256: TAB..CR, FS..US, SPACE, NEL, NBSP.\<close>
  "py_isspace c =
     (let n = (of_char c :: nat)
      in (9 \<le> n \<and> n \<le> 13) \<or> (28 \<le> n \<and> n \<le> 32) \<or> n = 133 \<or> n = 160)"

definition py_strip :: "string \<Rightarrow> string" where
  \<comment> \<open>\<open>s.strip()\<close>: leading and trailing whitespace removed.\<close>
  "py_strip s = rev (dropWhile py_isspace (rev (dropWhile py_isspace s)))"

definition py_lower_char :: "char \<Rightarrow> char" where
  \<comment> \<open>\<open>A..Z\<close> and the upper-case letters of Latin-1 (0xC0..0xDE without 0xD7) move by 32.\<close>
  "py_lower_char c =
     (let n = (of_char c :: nat)
      in if (65 \<le> n \<and> n \<le> 90) \<or> (192 \<le> n \<and> n \<le> 222 \<and> n \<noteq> 215)
         then char_of (n + 32) else c)"

definition py_lower :: "string \<Rightarrow> string" where
  \<comment> \<open>\<open>s.lower()\<close>\<close>
  "py_lower s = map py_lower_char s"

fun py_contains :: "string \<Rightarrow> string \<Rightarrow> bool" where
  \<comment> \<open>\<open>k in s\<close> on strings: \<open>k\<close> starts at some position of \<open>s\<close>.\<close>
  "py_contains k [] = (k = [])"
| "py_contains k (c # cs) = (prefix k (c # cs) \<or> py_contains k cs)"

fun py_join :: "string \<Rightarrow> string list \<Rightarrow> string" where
  \<comment> \<open>\<open>sep.join(xs)\<close>\<close>
  "py_join sep [] = []"
| "py_join sep [x] = x"
| "py_join sep (x # y # ys) = x @ sep @ py_join sep (y # ys)"

fun split_where :: "(char \<Rightarrow> bool) \<Rightarrow> string \<Rightarrow> string list" where
  \<comment> \<open>Cuts at every character that satisfies \<open>p\<close>; empty pieces are kept.\<close>
  "split_where p [] = [[]]"
| "split_where p (c # cs) =
     (if p c then [] # split_where p cs
      else (case split_where p cs of
              [] \<Rightarrow> [[c]]
            | piece # pieces \<Rightarrow> (c # piece) # pieces))"

definition py_split_on :: "char \<Rightarrow> string \<Rightarrow> string list" where
  \<comment> \<open>\<open>s.split(sep)\<close> for a separator of one character, as in \<open>text.split('\n')\<close>.\<close>
  "py_split_on sep s = split_where (\<lambda>c. c = sep) s"

fun split_words :: "string \<Rightarrow> string \<Rightarrow> string list" where
  \<comment> \<open>The scan of \<open>s.split()\<close>: \<open>cur\<close> is the token being read, reversed.\<close>
  "split_words cur [] = (if cur = [] then [] else [rev cur])"
| "split_words cur (c # cs) =
     (if py_isspace c
      then (if cur = [] then split_words [] cs else rev cur # split_words [] cs)
      else split_words (c # cur) cs)"

definition py_split :: "string \<Rightarrow> string list" where
  \<comment> \<open>\<open>s.split()\<close> with no argument: the maximal runs of non-whitespace.\<close>
  "py_split s = split_words [] s"

fun digits_of_nat :: "nat \<Rightarrow> string" where
  "digits_of_nat n =
     (if n < 10 then [char_of (48 + n)]
      else digits_of_nat (n div 10) @ [char_of (48 + n mod 10)])"

definition decimal_of_int :: "int \<Rightarrow> string" where
  \<comment> \<open>The decimal digits of an \<open>int\<close>, after a minus sign when it is negative.\<close>
  "decimal_of_int i =
     (if i < 0 then ''-'' @ digits_of_nat (nat (- i)) else digits_of_nat (nat i))"

definition int_max_str_digits :: nat where
  \<comment> \<open>\<open>sys.int_info.default_max_str_digits\<close>: the most digits CPython converts
      between \<open>int\<close> and \<open>str\<close> under its default setting.\<close>
  "int_max_str_digits = 4300"

section \<open>Errors, completion client and call log\<close>

text \<open>
  Exceptions are values. \<open>ValueError\<close> is raised by the agents on an empty topic,
  \<open>HTTPException\<close> (status code, detail) by the transport endpoint, and \<open>UpstreamError\<close>
  stands for whatever the external completion call raises.
\<close>

datatype exn = ValueError string | HTTPException nat string | UpstreamError string

definition py_str_int :: "int \<Rightarrow> exn + string" where
  \<comment> \<open>\<open>str(i)\<close> for an \<open>int\<close>, as an f-string renders \<open>{word_count}\<close>: an \<open>int\<close> of
      more than \<open>int_max_str_digits\<close> digits raises \<open>ValueError\<close>.\<close>
  "py_str_int i =
     (if 10 ^ int_max_str_digits \<le> \<bar>i\<bar>
      then Inl (ValueError (''Exceeds the limit (4300 digits) for integer string conversion; ''
                  @ ''use sys.set_int_max_str_digits() to increase the limit''))
      else Inr (decimal_of_int i))"

datatype agent_id = Research_agent | Writer_agent

text \<open>
  The completion client (\<open>self.agent.execute_task\<close> of the external agent framework) is
  a parameter: given the agent and the prompt it returns text or raises. One run of
  the pipeline calls each agent at most once, so a function of agent and prompt
  covers every behaviour of the client in a run. Every call to it is appended to a
  call log, which is the state threaded through the pipeline. Logger calls have no
  effect on results and are left out.
\<close>

type_synonym completion = "agent_id \<Rightarrow> string \<Rightarrow> exn + string"
type_synonym calls = "(agent_id \<times> string) list"

definition execute_task ::
  "completion \<Rightarrow> agent_id \<Rightarrow> string \<Rightarrow> calls \<Rightarrow> (exn + string) \<times> calls" where
  \<comment> \<open>\<open>BaseAgent.execute_task\<close> with \<open>context=None\<close>; an exception is logged and re-raised.\<close>
  "execute_task llm agent task_description log =
     (let task_input = task_description
      in (llm agent task_input, log @ [(agent, task_input)]))"

definition postprocess_output :: "string \<Rightarrow> string" where
  "postprocess_output output_data = py_strip output_data"

section \<open>Research agent\<close>

datatype pyval = Str string | StrList "string list"

type_synonym research_data = "string \<rightharpoonup> pyval"

fun keyword_lines :: "string list \<Rightarrow> string list \<Rightarrow> string list \<Rightarrow> string list" where
  \<comment> \<open>The \<open>for line in lines\<close> loop shared by the \<open>_extract_*\<close> helpers; \<open>acc\<close> is the
      list being appended to.\<close>
  "keyword_lines keywords [] acc = acc"
| "keyword_lines keywords (line # lines) acc =
     keyword_lines keywords lines
       (if list_ex (\<lambda>keyword. py_contains keyword (py_lower line)) keywords
        then acc @ [py_strip line] else acc)"

definition extract_key_facts :: "string \<Rightarrow> string list" where
  "extract_key_facts text =
     keyword_lines [''fact'', ''statistic'', ''data'', ''figure'']
       (py_split_on CHR 0x0A text) []"

definition extract_sources :: "string \<Rightarrow> string list" where
  "extract_sources text =
     keyword_lines [''source'', ''reference'', ''study'', ''report'']
       (py_split_on CHR 0x0A text) []"

definition extract_insights :: "string \<Rightarrow> string list" where
  "extract_insights text =
     keyword_lines [''insight'', ''finding'', ''discovery'', ''observation'']
       (py_split_on CHR 0x0A text) []"

definition extract_recommendations :: "string \<Rightarrow> string list" where
  "extract_recommendations text =
     keyword_lines [''recommend'', ''suggest'', ''advise'', ''propose'']
       (py_split_on CHR 0x0A text) []"

definition parse_research_result :: "string \<Rightarrow> string \<Rightarrow> research_data" where
  "parse_research_result research_text topic =
     [''topic'' \<mapsto> Str topic,
      ''research_findings'' \<mapsto> Str research_text,
      ''key_facts'' \<mapsto> StrList (extract_key_facts research_text),
      ''sources'' \<mapsto> StrList (extract_sources research_text),
      ''insights'' \<mapsto> StrList (extract_insights research_text),
      ''recommendations'' \<mapsto> StrList (extract_recommendations research_text)]"

definition research_validate_input :: "string \<Rightarrow> bool" where
  \<comment> \<open>\<open>ResearchAgent.validate_input\<close> on a \<open>str\<close>\<close>
  "research_validate_input input_data = (length (py_strip input_data) > 0)"

definition research_task_description :: "string \<Rightarrow> string \<Rightarrow> string \<Rightarrow> string \<Rightarrow> string" where
  "research_task_description topic research_depth content_type target_audience =
     py_join [CHR 0x0A]
       ['''',
        ''        Conduct '' @ research_depth @ '' research on the topic: \"'' @ topic @ ''\"'',
        ''        '',
        ''        Content Type: '' @ content_type,
        ''        Target Audience: '' @ target_audience,
        ''        '',
        ''        Please provide:'',
        ''        1. Key facts and statistics'',
        ''        2. Current trends and developments'',
        ''        3. Expert opinions and quotes'',
        ''        4. Relevant case studies or examples'',
        ''        5. Historical context (if applicable)'',
        ''        6. Controversial aspects or debates'',
        ''        7. Future implications or predictions'',
        ''        8. Credible sources and references'',
        ''        9. Data visualization suggestions'',
        ''        10. Research gaps or areas for further study'',
        ''        '']"

definition research_topic ::
  "completion \<Rightarrow> string \<Rightarrow> string \<Rightarrow> string \<Rightarrow> string \<Rightarrow> calls
     \<Rightarrow> (exn + research_data) \<times> calls" where
  "research_topic llm topic research_depth content_type target_audience log =
     (if \<not> research_validate_input topic
      then (Inl (ValueError ''Topic cannot be empty''), log)
      else (case execute_task llm Research_agent
                   (research_task_description topic research_depth content_type
                      target_audience) log of
              (Inl e, log') \<Rightarrow> (Inl e, log')
            | (Inr result, log') \<Rightarrow> (Inr (parse_research_result result topic), log')))"

section \<open>Writer agent\<close>

definition writer_validate_input :: "string \<Rightarrow> bool" where
  \<comment> \<open>\<open>WriterAgent.validate_input\<close> on a \<open>str\<close>\<close>
  "writer_validate_input input_data = (length (py_strip input_data) > 0)"

definition writer_task_text ::
  "string \<Rightarrow> string \<Rightarrow> string \<Rightarrow> string \<Rightarrow> string \<Rightarrow> string list option
     \<Rightarrow> string option \<Rightarrow> string" where
  \<comment> \<open>The text of \<open>task_description\<close>, given \<open>{word_count}\<close> already rendered as
      \<open>word_count_text\<close>.\<close>
  "writer_task_text topic content_type target_audience word_count_text tone keywords
      additional_requirements =
     (let task_description = py_join [CHR 0x0A]
            ['''',
             ''        Create a '' @ content_type @ '' about \"'' @ topic
                @ ''\" with the following specifications:'',
             ''        '',
             ''        - Target Audience: '' @ target_audience,
             ''        - Word Count: Approximately '' @ word_count_text @ '' words'',
             ''        - Tone: '' @ tone,
             ''        - Content Type: '' @ content_type,
             ''        ''];
          task_description =
            (case keywords of
               None \<Rightarrow> task_description
             | Some ks \<Rightarrow>
                 if ks \<noteq> []
                 then task_description @ [CHR 0x0A] @ ''- Keywords to include naturally: ''
                        @ py_join '', '' ks
                 else task_description);
          task_description =
            (case additional_requirements of
               None \<Rightarrow> task_description
             | Some req \<Rightarrow>
                 if req \<noteq> []
                 then task_description @ [CHR 0x0A] @ ''- Additional Requirements: '' @ req
                 else task_description)
      in task_description @ py_join [CHR 0x0A]
           ['''',
            ''        '',
            ''        Please ensure the content is:'',
            ''        1. Well-structured with clear headings and subheadings'',
            ''        2. Engaging and informative'',
            ''        3. Optimized for the target audience'',
            ''        4. Free of grammatical errors'',
            ''        5. Original and plagiarism-free'',
            ''        ''])"

definition writer_task_description ::
  "string \<Rightarrow> string \<Rightarrow> string \<Rightarrow> int \<Rightarrow> string \<Rightarrow> string list option \<Rightarrow> string option
     \<Rightarrow> exn + string" where
  \<comment> \<open>Building \<open>task_description\<close>: rendering \<open>{word_count}\<close> in the first f-string is
      the one step that can raise.\<close>
  "writer_task_description topic content_type target_audience word_count tone keywords
      additional_requirements =
     (case py_str_int word_count of
        Inl e \<Rightarrow> Inl e
      | Inr word_count_text \<Rightarrow>
          Inr (writer_task_text topic content_type target_audience word_count_text tone
                 keywords additional_requirements))"

definition create_content_draft ::
  "completion \<Rightarrow> string \<Rightarrow> string \<Rightarrow> string \<Rightarrow> int \<Rightarrow> string \<Rightarrow> string list option
     \<Rightarrow> string option \<Rightarrow> calls \<Rightarrow> (exn + string) \<times> calls" where
  "create_content_draft llm topic content_type target_audience word_count tone keywords
      additional_requirements log =
     (if \<not> writer_validate_input topic
      then (Inl (ValueError ''Topic cannot be empty''), log)
      else (case writer_task_description topic content_type target_audience word_count
                   tone keywords additional_requirements of
              Inl e \<Rightarrow> (Inl e, log)
            | Inr task_description \<Rightarrow>
                (case execute_task llm Writer_agent task_description log of
                   (Inl e, log') \<Rightarrow> (Inl e, log')
                 | (Inr result, log') \<Rightarrow> (Inr (postprocess_output result), log'))))"

section \<open>Content creation task\<close>

record draft_result =
  draft_content :: string
  research_incorporated :: bool
  word_count_actual :: int
  keywords_used :: "string list"

definition conduct_research ::
  "completion \<Rightarrow> string \<Rightarrow> string \<Rightarrow> string \<Rightarrow> string \<Rightarrow> calls
     \<Rightarrow> (exn + research_data) \<times> calls" where
  "conduct_research llm topic content_type target_audience research_depth log =
     research_topic llm topic research_depth content_type target_audience log"

fun join_first :: "nat \<Rightarrow> pyval \<Rightarrow> string" where
  \<comment> \<open>\<open>', '.join(v[:n])\<close>; a \<open>str\<close> is sliced and joined character by character.\<close>
  "join_first n (StrList xs) = py_join '', '' (take n xs)"
| "join_first n (Str s) = py_join '', '' (map (\<lambda>c. [c]) (take n s))"

definition prepare_research_requirements :: "research_data \<Rightarrow> string" where
  "prepare_research_requirements research_data =
     (let requirements = [];
          requirements =
            (case research_data ''key_facts'' of
               None \<Rightarrow> requirements
             | Some v \<Rightarrow> requirements @ [''Key Facts: '' @ join_first 5 v]);
          requirements =
            (case research_data ''sources'' of
               None \<Rightarrow> requirements
             | Some v \<Rightarrow> requirements @ [''Credible Sources: '' @ join_first 3 v]);
          requirements =
            (case research_data ''insights'' of
               None \<Rightarrow> requirements
             | Some v \<Rightarrow> requirements @ [''Key Insights: '' @ join_first 3 v])
      in if requirements \<noteq> [] then py_join [CHR 0x0A] requirements else [])"

definition create_draft ::
  "completion \<Rightarrow> string \<Rightarrow> string \<Rightarrow> string \<Rightarrow> int \<Rightarrow> string \<Rightarrow> string list option
     \<Rightarrow> research_data \<Rightarrow> calls \<Rightarrow> (exn + draft_result) \<times> calls" where
  "create_draft llm topic content_type target_audience word_count tone keywords
      research_data log =
     (let additional_requirements = prepare_research_requirements research_data
      in case create_content_draft llm topic content_type target_audience word_count tone
                keywords (Some additional_requirements) log of
           (Inl e, log') \<Rightarrow> (Inl e, log')
         | (Inr content_draft, log') \<Rightarrow>
             (Inr \<lparr>draft_content = content_draft,
                   research_incorporated = True,
                   word_count_actual = int (length (py_split content_draft)),
                   keywords_used =
                     (case keywords of
                        None \<Rightarrow> []
                      | Some ks \<Rightarrow> if ks \<noteq> [] then ks else [])\<rparr>,
              log'))"

text \<open>
  The dictionary \<open>final_result\<close> that \<open>create_content\<close> returns; its keys are the
  fields of the response model \<open>ContentResponse\<close>.
\<close>

record final_result =
  topic :: string
  content_type :: string
  target_audience :: string
  word_count :: int
  tone :: string
  "keywords" :: "string list option"
  research_data :: research_data
  content :: draft_result
  creation_timestamp :: string
  status :: string

definition create_content ::
  "completion \<Rightarrow> string \<Rightarrow> string \<Rightarrow> string \<Rightarrow> string \<Rightarrow> int \<Rightarrow> string
     \<Rightarrow> string list option \<Rightarrow> string \<Rightarrow> calls \<Rightarrow> (exn + final_result) \<times> calls" where
  \<comment> \<open>\<open>now\<close> is what \<open>datetime.now().isoformat()\<close> yields; the \<open>except\<close> clause logs and
      re-raises, so an exception of either step is the result.\<close>
  "create_content llm now topic content_type target_audience word_count tone keywords
      research_depth log =
     (case conduct_research llm topic content_type target_audience research_depth log of
        (Inl e, log1) \<Rightarrow> (Inl e, log1)
      | (Inr research_result, log1) \<Rightarrow>
          (case create_draft llm topic content_type target_audience word_count tone
                  keywords research_result log1 of
             (Inl e, log2) \<Rightarrow> (Inl e, log2)
           | (Inr content_result, log2) \<Rightarrow>
               (Inr \<lparr>topic = topic,
                     content_type = content_type,
                     target_audience = target_audience,
                     word_count = word_count,
                     tone = tone,
                     keywords = keywords,
                     research_data = research_result,
                     content = content_result,
                     creation_timestamp = now,
                     status = ''completed''\<rparr>,
                log2)))"
  for topic content_type target_audience word_count tone "keywords"

section \<open>Transport endpoint\<close>

record ContentRequest =
  topic :: string
  content_type :: string
  target_audience :: string
  word_count :: int
  tone :: string
  "keywords" :: "string list option"
  research_depth :: string

definition get_api_key :: "string \<Rightarrow> string option \<Rightarrow> exn + string option" where
  \<comment> \<open>\<open>secret_key\<close> is \<open>settings.secret_key\<close>; \<open>api_key\<close> is what the header scheme
      hands over for \<open>X-API-Key\<close>: \<open>None\<close> when the header is absent or empty.\<close>
  "get_api_key secret_key api_key =
     (if api_key \<noteq> Some secret_key then Inl (HTTPException 401 ''Invalid API Key'')
      else Inr api_key)"

definition task_validate_input :: "ContentRequest \<Rightarrow> bool" where
  \<comment> \<open>\<open>ContentCreationTask.validate_input\<close> on \<open>request.dict()\<close>: the one required field
      is always a key of that dict, and the empty string is falsy.\<close>
  "task_validate_input input_data = (\<not> (topic input_data = []))"

definition create_content_endpoint ::
  "completion \<Rightarrow> string \<Rightarrow> string \<Rightarrow> string option \<Rightarrow> ContentRequest \<Rightarrow> calls
     \<Rightarrow> (exn + final_result) \<times> calls" where
  \<comment> \<open>The route runs its dependency \<open>get_api_key\<close> first, then the handler body.\<close>
  "create_content_endpoint llm now secret_key api_key request log =
     (case get_api_key secret_key api_key of
        Inl e \<Rightarrow> (Inl e, log)
      | Inr _ \<Rightarrow>
          if \<not> task_validate_input request
          then (Inl (HTTPException 400 ''Invalid input data''), log)
          else create_content llm now (topic request) (content_type request)
                 (target_audience request) (word_count request) (tone request)
                 (keywords request) (research_depth request) log)"

section \<open>Stub collaborators\<close>

text \<open>
  Concrete completion clients and a concrete research dictionary, for running the
  pipeline on explicit inputs.
\<close>

definition stub_llm :: "string \<Rightarrow> string \<Rightarrow> completion" where
  \<comment> \<open>Answers the Research agent with \<open>research_text\<close> and the Writer agent with
      \<open>draft_text\<close>, whatever the prompt.\<close>
  "stub_llm research_text draft_text agent prompt =
     (case agent of Research_agent \<Rightarrow> Inr research_text | Writer_agent \<Rightarrow> Inr draft_text)"

definition failing_llm :: completion where
  "failing_llm agent prompt = Inl (UpstreamError ''rate limit exceeded'')"

definition sample_research :: research_data where
  "sample_research =
     [''key_facts'' \<mapsto> StrList [''f1'', ''f2'', ''f3'', ''f4'', ''f5'', ''f6''],
      ''sources'' \<mapsto> StrList [''s1'', ''s2'', ''s3'', ''s4''],
      ''insights'' \<mapsto> StrList [''i1'']]"

section \<open>Facts about the string functions\<close>

lemma split_where_not_Nil: "split_where p s \<noteq> []"
  by (induction s) (auto split: list.splits)

lemma split_where_pieces_free:
  "\<forall>piece \<in> set (split_where p s). \<forall>c \<in> set piece. \<not> p c"
  by (induction s) (auto split: list.splits)

lemma py_join_Cons: "ys \<noteq> [] \<Longrightarrow> py_join sep (x # ys) = x @ sep @ py_join sep ys"
  by (cases ys) auto

text \<open>Splitting at a character and joining with it again gives the text back.\<close>

lemma join_split_where: "py_join [c] (split_where (\<lambda>x. x = c) s) = s"
proof (induction s)
  case Nil
  show ?case by simp
next
  case (Cons a s)
  then show ?case
    using split_where_not_Nil [of "\<lambda>x. x = c" s]
    by (cases "split_where (\<lambda>x. x = c) s"; cases "tl (split_where (\<lambda>x. x = c) s)")
       (auto simp: py_join_Cons)
qed

text \<open>
  The scan of \<open>s.split()\<close> yields the non-empty pieces between whitespace characters;
  \<open>cur\<close> is glued in front of the first piece.
\<close>

lemma split_words_pieces:
  "split_words cur s =
     filter (\<lambda>w. w \<noteq> [])
       ((rev cur @ hd (split_where py_isspace s)) # tl (split_where py_isspace s))"
proof (induction s arbitrary: cur)
  case Nil
  show ?case by simp
next
  case (Cons c cs)
  show ?case
  proof (cases "py_isspace c")
    case True
    then show ?thesis
      using Cons.IH [of "[]"] split_where_not_Nil [of py_isspace cs]
      by (cases "split_where py_isspace cs") auto
  next
    case False
    then show ?thesis
      using Cons.IH [of "c # cur"] split_where_not_Nil [of py_isspace cs]
      by (cases "split_where py_isspace cs") auto
  qed
qed

lemma py_split_pieces: "py_split s = filter (\<lambda>w. w \<noteq> []) (split_where py_isspace s)"
  using split_words_pieces [of "[]" s] split_where_not_Nil [of py_isspace s]
  by (cases "split_where py_isspace s") (auto simp: py_split_def)

lemma py_contains_iff: "py_contains k s \<longleftrightarrow> (\<exists>pre post. s = pre @ k @ post)"
proof (induction s)
  case Nil
  show ?case by auto
next
  case (Cons c cs)
  show ?case
  proof
    assume "py_contains k (c # cs)"
    then consider "prefix k (c # cs)" | "py_contains k cs" by auto
    then show "\<exists>pre post. c # cs = pre @ k @ post"
    proof cases
      case 1
      then obtain post where "c # cs = k @ post" by (auto simp: prefix_def)
      then have "c # cs = [] @ k @ post" by simp
      then show ?thesis by blast
    next
      case 2
      with Cons.IH obtain pre post where "cs = pre @ k @ post" by blast
      then have "c # cs = (c # pre) @ k @ post" by simp
      then show ?thesis by blast
    qed
  next
    assume "\<exists>pre post. c # cs = pre @ k @ post"
    then obtain pre post where eq: "c # cs = pre @ k @ post" by blast
    show "py_contains k (c # cs)"
    proof (cases pre)
      case Nil
      with eq have "prefix k (c # cs)" by (simp add: prefix_def)
      then show ?thesis by simp
    next
      case (Cons a pre')
      with eq have "cs = pre' @ k @ post" by simp
      with Cons.IH have "py_contains k cs" by blast
      then show ?thesis by simp
    qed
  qed
qed

text \<open>
  \<open>k in line.lower()\<close> holds exactly when some stretch of the line lowers to \<open>k\<close>:
  for a lower-case \<open>k\<close> this is a case-insensitive substring test.
\<close>

lemma contains_lower_iff:
  "py_contains k (py_lower l) \<longleftrightarrow>
     (\<exists>pre mid post. l = pre @ mid @ post \<and> py_lower mid = k)"
proof
  assume "py_contains k (py_lower l)"
  then obtain a b where "map py_lower_char l = a @ k @ b"
    by (auto simp: py_contains_iff py_lower_def)
  then have "\<exists>pre rest. l = pre @ rest \<and> a = map py_lower_char pre
      \<and> k @ b = map py_lower_char rest"
    by (simp only: map_eq_append_conv)
  then obtain pre rest where l: "l = pre @ rest" and r: "map py_lower_char rest = k @ b"
    by auto
  from r have "\<exists>mid post. rest = mid @ post \<and> k = map py_lower_char mid
      \<and> b = map py_lower_char post"
    by (simp only: map_eq_append_conv)
  then obtain mid post where "rest = mid @ post" and "map py_lower_char mid = k"
    by auto
  with l show "\<exists>pre mid post. l = pre @ mid @ post \<and> py_lower mid = k"
    by (auto simp: py_lower_def)
next
  assume "\<exists>pre mid post. l = pre @ mid @ post \<and> py_lower mid = k"
  then obtain pre mid post where "l = pre @ mid @ post" and "py_lower mid = k" by blast
  then have "py_lower l = py_lower pre @ k @ py_lower post"
    by (auto simp: py_lower_def)
  then show "py_contains k (py_lower l)"
    unfolding py_contains_iff by blast
qed

lemma take5_long:
  "5 < length xs \<Longrightarrow> take 5 xs = [xs ! 0, xs ! 1, xs ! 2, xs ! 3, xs ! 4]"
  by (cases xs; cases "tl xs"; cases "tl (tl xs)"; cases "tl (tl (tl xs))";
      cases "tl (tl (tl (tl xs)))") (auto simp: numeral_eq_Suc)

lemma strip_ev: "py_strip ''electric vehicles'' \<noteq> []"
  by (simp add: py_strip_def py_isspace_def)

lemma strip_three: "py_strip ''one two three'' = ''one two three''"
  by (simp add: py_strip_def py_isspace_def)

lemma split_three: "py_split ''one two three'' = [''one'', ''two'', ''three'']"
  by (simp add: py_split_def py_isspace_def)

section \<open>The extraction loop\<close>

lemma keyword_lines_filter:
  "keyword_lines kws ls acc =
     acc @ map py_strip (filter (\<lambda>l. list_ex (\<lambda>k. py_contains k (py_lower l)) kws) ls)"
  by (induction ls arbitrary: acc) auto

lemma extract_empty_text:
  "extract_key_facts [] = []" "extract_sources [] = []" "extract_insights [] = []"
  "extract_recommendations [] = []"
  by (simp_all add: extract_key_facts_def extract_sources_def extract_insights_def
      extract_recommendations_def py_split_on_def py_lower_def)

section \<open>The agent calls and the pipeline, step by step\<close>

text \<open>
  Each agent method either rejects a blank topic without touching the completion
  client, or makes exactly one completion call and appends it to the log.
\<close>

lemma research_topic_empty:
  "py_strip t = [] \<Longrightarrow>
   research_topic llm t depth ct ta log = (Inl (ValueError ''Topic cannot be empty''), log)"
  by (simp add: research_topic_def research_validate_input_def)

lemma research_topic_call:
  "py_strip t \<noteq> [] \<Longrightarrow>
   research_topic llm t depth ct ta log =
     (case llm Research_agent (research_task_description t depth ct ta) of
        Inl e \<Rightarrow> Inl e
      | Inr result \<Rightarrow> Inr (parse_research_result result t),
      log @ [(Research_agent, research_task_description t depth ct ta)])"
  by (simp add: research_topic_def research_validate_input_def execute_task_def
      split: sum.splits)

text \<open>
  Rendering the word count succeeds exactly below the digit limit; every count of at
  most four digits is below it.
\<close>

lemma py_str_int_below_limit:
  "\<bar>i\<bar> < 10 ^ int_max_str_digits \<Longrightarrow> py_str_int i = Inr (decimal_of_int i)"
  by (simp add: py_str_int_def)

lemma py_str_int_at_limit:
  "10 ^ int_max_str_digits \<le> \<bar>i\<bar> \<Longrightarrow>
   py_str_int i =
     Inl (ValueError (''Exceeds the limit (4300 digits) for integer string conversion; ''
            @ ''use sys.set_int_max_str_digits() to increase the limit''))"
  by (simp add: py_str_int_def)

lemma four_digits_below_limit: "\<bar>i\<bar> < 10000 \<Longrightarrow> \<bar>i :: int\<bar> < 10 ^ int_max_str_digits"
proof -
  assume small: "\<bar>i\<bar> < 10000"
  have "(10 :: int) ^ 4 \<le> 10 ^ int_max_str_digits"
    unfolding int_max_str_digits_def by (rule power_increasing) simp_all
  moreover have "(10 :: int) ^ 4 = 10000"
    by simp
  ultimately show ?thesis
    using small by linarith
qed

lemma limit_500: "\<bar>500 :: int\<bar> < 10 ^ int_max_str_digits"
  by (rule four_digits_below_limit) simp

lemma writer_task_description_below_limit:
  "\<bar>wc\<bar> < 10 ^ int_max_str_digits \<Longrightarrow>
   writer_task_description t ct ta wc tn kws req =
     Inr (writer_task_text t ct ta (decimal_of_int wc) tn kws req)"
  by (simp add: writer_task_description_def py_str_int_below_limit)

lemma writer_task_description_at_limit:
  "10 ^ int_max_str_digits \<le> \<bar>wc\<bar> \<Longrightarrow>
   writer_task_description t ct ta wc tn kws req = py_str_int wc"
  by (simp add: writer_task_description_def py_str_int_at_limit)

text \<open>
  Non-empty additional requirements stand in the Writer's prompt, after their label.
\<close>

lemma writer_task_text_holds_requirements:
  assumes "req \<noteq> []"
  shows "\<exists>pre post. writer_task_text t ct ta n tn kws (Some req) =
           pre @ ''- Additional Requirements: '' @ req @ post"
proof -
  obtain head tail where
    "writer_task_text t ct ta n tn kws (Some req) =
       head @ [CHR 0x0A] @ ''- Additional Requirements: '' @ req @ tail"
    using assms by (simp add: writer_task_text_def Let_def)
  then have "writer_task_text t ct ta n tn kws (Some req) =
       (head @ [CHR 0x0A]) @ ''- Additional Requirements: '' @ req @ tail"
    by simp
  then show ?thesis
    by (intro exI)
qed

lemma create_content_draft_call:
  "py_strip t \<noteq> [] \<Longrightarrow> \<bar>wc\<bar> < 10 ^ int_max_str_digits \<Longrightarrow>
   create_content_draft llm t ct ta wc tn kws req log =
     (case llm Writer_agent (writer_task_text t ct ta (decimal_of_int wc) tn kws req) of
        Inl e \<Rightarrow> Inl e
      | Inr result \<Rightarrow> Inr (py_strip result),
      log @ [(Writer_agent, writer_task_text t ct ta (decimal_of_int wc) tn kws req)])"
  by (simp add: create_content_draft_def writer_validate_input_def execute_task_def
      postprocess_output_def writer_task_description_below_limit split: sum.splits)

lemma create_content_draft_at_limit:
  "py_strip t \<noteq> [] \<Longrightarrow> 10 ^ int_max_str_digits \<le> \<bar>wc\<bar> \<Longrightarrow>
   create_content_draft llm t ct ta wc tn kws req log = (py_str_int wc, log)"
  by (simp add: create_content_draft_def writer_validate_input_def
      writer_task_description_at_limit py_str_int_at_limit)

lemma create_draft_call:
  "py_strip t \<noteq> [] \<Longrightarrow> \<bar>wc\<bar> < 10 ^ int_max_str_digits \<Longrightarrow>
   create_draft llm t ct ta wc tn kws rd log =
     (case llm Writer_agent
             (writer_task_text t ct ta (decimal_of_int wc) tn kws
                (Some (prepare_research_requirements rd))) of
        Inl e \<Rightarrow> Inl e
      | Inr result \<Rightarrow>
          Inr \<lparr>draft_content = py_strip result,
                research_incorporated = True,
                word_count_actual = int (length (py_split (py_strip result))),
                keywords_used = (case kws of None \<Rightarrow> [] | Some ks \<Rightarrow> ks)\<rparr>,
      log @ [(Writer_agent,
              writer_task_text t ct ta (decimal_of_int wc) tn kws
                (Some (prepare_research_requirements rd)))])"
  by (simp add: create_draft_def create_content_draft_call split: sum.splits option.splits)

lemma create_draft_at_limit:
  "py_strip t \<noteq> [] \<Longrightarrow> 10 ^ int_max_str_digits \<le> \<bar>wc\<bar> \<Longrightarrow>
   snd (create_draft llm t ct ta wc tn kws rd log) = log"
  by (simp add: create_draft_def create_content_draft_at_limit py_str_int_at_limit)

lemma create_draft_content:
  assumes "create_draft llm t ct ta wc tn kws rd log = (Inr d, log')"
  shows "word_count_actual d = int (length (py_split (draft_content d)))"
    and "research_incorporated d = True"
    and "keywords_used d = (case kws of None \<Rightarrow> [] | Some ks \<Rightarrow> ks)"
  using assms
  by (auto simp: create_draft_def Let_def split: prod.splits sum.splits option.splits)

lemma create_content_call:
  "py_strip t \<noteq> [] \<Longrightarrow>
   create_content llm now t ct ta wc tn kws depth log =
     (case llm Research_agent (research_task_description t depth ct ta) of
        Inl e \<Rightarrow> (Inl e, log @ [(Research_agent, research_task_description t depth ct ta)])
      | Inr result \<Rightarrow>
          (case create_draft llm t ct ta wc tn kws (parse_research_result result t)
                  (log @ [(Research_agent, research_task_description t depth ct ta)]) of
             (Inl e, log2) \<Rightarrow> (Inl e, log2)
           | (Inr content_result, log2) \<Rightarrow>
               (Inr \<lparr>final_result.topic = t,
                     content_type = ct,
                     target_audience = ta,
                     word_count = wc,
                     tone = tn,
                     keywords = kws,
                     research_data = parse_research_result result t,
                     content = content_result,
                     creation_timestamp = now,
                     status = ''completed''\<rparr>,
                log2)))"
  by (simp add: create_content_def conduct_research_def research_topic_call
      split: sum.splits)

lemma requirements_of_parse_not_empty:
  "prepare_research_requirements (parse_research_result result t) \<noteq> []"
  by (simp add: prepare_research_requirements_def parse_research_result_def)

lemma requirements_three_lists:
  assumes "rd ''key_facts'' = Some (StrList kf)"
    and "rd ''sources'' = Some (StrList so)"
    and "rd ''insights'' = Some (StrList ins)"
  shows "prepare_research_requirements rd =
           ''Key Facts: '' @ py_join '', '' (take 5 kf) @ [CHR 0x0A]
           @ ''Credible Sources: '' @ py_join '', '' (take 3 so) @ [CHR 0x0A]
           @ ''Key Insights: '' @ py_join '', '' (take 3 ins)"
  using assms by (simp add: prepare_research_requirements_def)

section \<open>The research requirements block\<close>

text \<open>
  C1. When the research dictionary holds lists under \<open>key_facts\<close>, \<open>sources\<close> and
  \<open>insights\<close>, the requirements block is three labelled lines: the first 5 key facts,
  the first 3 sources and the first 3 insights, each group joined with a comma and a
  space. With more than 5 key facts the first line holds exactly the first five. For a
  topic that is not blank and a word count below the digit limit of \<open>str\<close>, the Draft
  step makes one Writer call, and its prompt holds exactly this block after the label
  for additional requirements.
\<close>

theorem requirements_block_first_entries:
  assumes "rd ''key_facts'' = Some (StrList kf)"
    and "rd ''sources'' = Some (StrList so)"
    and "rd ''insights'' = Some (StrList ins)"
    and "py_strip t \<noteq> []"
    and "\<bar>wc\<bar> < 10 ^ int_max_str_digits"
  shows "prepare_research_requirements rd =
           ''Key Facts: '' @ py_join '', '' (take 5 kf) @ [CHR 0x0A]
           @ ''Credible Sources: '' @ py_join '', '' (take 3 so) @ [CHR 0x0A]
           @ ''Key Insights: '' @ py_join '', '' (take 3 ins)
         \<and> snd (create_draft llm t ct ta wc tn kws rd log) =
             log @ [(Writer_agent,
                     writer_task_text t ct ta (decimal_of_int wc) tn kws
                       (Some (prepare_research_requirements rd)))]
         \<and> (5 < length kf \<longrightarrow>
              py_join '', '' (take 5 kf) =
                kf ! 0 @ '', '' @ kf ! 1 @ '', '' @ kf ! 2 @ '', '' @ kf ! 3 @ '', '' @ kf ! 4)
         \<and> (\<exists>pre post.
               writer_task_text t ct ta (decimal_of_int wc) tn kws
                 (Some (prepare_research_requirements rd)) =
               pre @ ''- Additional Requirements: '' @ prepare_research_requirements rd
                 @ post)"
proof (intro conjI impI)
  show block: "prepare_research_requirements rd =
           ''Key Facts: '' @ py_join '', '' (take 5 kf) @ [CHR 0x0A]
           @ ''Credible Sources: '' @ py_join '', '' (take 3 so) @ [CHR 0x0A]
           @ ''Key Insights: '' @ py_join '', '' (take 3 ins)"
    using assms(1-3) by (rule requirements_three_lists)
  show "snd (create_draft llm t ct ta wc tn kws rd log) =
             log @ [(Writer_agent,
                     writer_task_text t ct ta (decimal_of_int wc) tn kws
                       (Some (prepare_research_requirements rd)))]"
    using assms(4,5) by (simp add: create_draft_call)
  from block have "prepare_research_requirements rd \<noteq> []"
    by simp
  then show "\<exists>pre post.
               writer_task_text t ct ta (decimal_of_int wc) tn kws
                 (Some (prepare_research_requirements rd)) =
               pre @ ''- Additional Requirements: '' @ prepare_research_requirements rd
                 @ post"
    by (rule writer_task_text_holds_requirements)
next
  assume "5 < length kf"
  then show "py_join '', '' (take 5 kf) =
                kf ! 0 @ '', '' @ kf ! 1 @ '', '' @ kf ! 2 @ '', '' @ kf ! 3 @ '', '' @ kf ! 4"
    by (simp add: take5_long)
qed

theorem requirements_block_first_entries_witness:
  "sample_research ''key_facts'' = Some (StrList [''f1'', ''f2'', ''f3'', ''f4'', ''f5'', ''f6''])
   \<and> py_strip ''ev'' \<noteq> []
   \<and> \<bar>500 :: int\<bar> < 10 ^ int_max_str_digits
   \<and> 5 < length [''f1'', ''f2'', ''f3'', ''f4'', ''f5'', ''f6'']
   \<and> prepare_research_requirements sample_research
      = ''Key Facts: f1, f2, f3, f4, f5\<newline>Credible Sources: s1, s2, s3\<newline>Key Insights: i1''
   \<and> snd (create_draft (stub_llm ''research'' ''draft'') ''ev'' ''article'' ''general'' 500
             ''professional'' None sample_research [])
      = [(Writer_agent,
          writer_task_text ''ev'' ''article'' ''general'' (decimal_of_int 500) ''professional''
            None
            (Some ''Key Facts: f1, f2, f3, f4, f5\<newline>Credible Sources: s1, s2, s3\<newline>Key Insights: i1''))]"
proof -
  have k: "sample_research ''key_facts''
      = Some (StrList [''f1'', ''f2'', ''f3'', ''f4'', ''f5'', ''f6''])"
    by (simp add: sample_research_def)
  have s: "sample_research ''sources'' = Some (StrList [''s1'', ''s2'', ''s3'', ''s4''])"
    by (simp add: sample_research_def)
  have i: "sample_research ''insights'' = Some (StrList [''i1''])"
    by (simp add: sample_research_def)
  have t: "py_strip ''ev'' \<noteq> []"
    by (simp add: py_strip_def py_isspace_def)
  note th = requirements_block_first_entries [OF k s i t limit_500,
      of "stub_llm ''research'' ''draft''" "''article''" "''general''" "''professional''"
        None "[]"]
  from th have "prepare_research_requirements sample_research
      = ''Key Facts: f1, f2, f3, f4, f5\<newline>Credible Sources: s1, s2, s3\<newline>Key Insights: i1''"
    by simp
  moreover from th have "snd (create_draft (stub_llm ''research'' ''draft'') ''ev'' ''article''
             ''general'' 500 ''professional'' None sample_research [])
      = [(Writer_agent,
          writer_task_text ''ev'' ''article'' ''general'' (decimal_of_int 500) ''professional''
            None (Some (prepare_research_requirements sample_research)))]"
    by simp
  ultimately show ?thesis
    using k t limit_500 by simp
qed

text \<open>
  C5. When the research dictionary holds empty lists under \<open>key_facts\<close>, \<open>sources\<close> and
  \<open>insights\<close>, the requirements block is the three labels with nothing after them, one
  per line. This block is what the Draft step passes to the Writer as additional
  requirements, and the Draft step returns a draft whenever the topic is not blank,
  the word count is below the digit limit of \<open>str\<close>, and the Writer's completion call
  succeeds.
\<close>

theorem empty_research_gives_label_lines:
  assumes "rd ''key_facts'' = Some (StrList [])"
    and "rd ''sources'' = Some (StrList [])"
    and "rd ''insights'' = Some (StrList [])"
    and "py_strip t \<noteq> []"
    and "\<bar>wc\<bar> < 10 ^ int_max_str_digits"
    and "llm Writer_agent
           (writer_task_text t ct ta (decimal_of_int wc) tn kws
              (Some ''Key Facts: \<newline>Credible Sources: \<newline>Key Insights: '')) = Inr result"
  shows "prepare_research_requirements rd
           = ''Key Facts: \<newline>Credible Sources: \<newline>Key Insights: ''
         \<and> create_draft llm t ct ta wc tn kws rd log =
             (Inr \<lparr>draft_content = py_strip result,
                   research_incorporated = True,
                   word_count_actual = int (length (py_split (py_strip result))),
                   keywords_used = (case kws of None \<Rightarrow> [] | Some ks \<Rightarrow> ks)\<rparr>,
              log @ [(Writer_agent,
                      writer_task_text t ct ta (decimal_of_int wc) tn kws
                        (Some ''Key Facts: \<newline>Credible Sources: \<newline>Key Insights: ''))])"
proof -
  have block: "prepare_research_requirements rd
      = ''Key Facts: \<newline>Credible Sources: \<newline>Key Insights: ''"
    using assms(1-3) by (simp add: prepare_research_requirements_def)
  with assms(4-6) show ?thesis
    by (simp add: create_draft_call)
qed

theorem empty_research_gives_label_lines_witness:
  "parse_research_result [] ''electric vehicles'' ''key_facts'' = Some (StrList [])
   \<and> py_strip ''electric vehicles'' \<noteq> []
   \<and> \<bar>500 :: int\<bar> < 10 ^ int_max_str_digits
   \<and> stub_llm [] ''one two three'' Writer_agent
        (writer_task_text ''electric vehicles'' ''article'' ''general'' (decimal_of_int 500)
           ''professional'' None
           (Some ''Key Facts: \<newline>Credible Sources: \<newline>Key Insights: '')) = Inr ''one two three''
   \<and> prepare_research_requirements (parse_research_result [] ''electric vehicles'')
       = ''Key Facts: \<newline>Credible Sources: \<newline>Key Insights: ''
   \<and> create_draft (stub_llm [] ''one two three'') ''electric vehicles'' ''article''
        ''general'' 500 ''professional'' None
        (parse_research_result [] ''electric vehicles'') [] =
       (Inr \<lparr>draft_content = ''one two three'',
             research_incorporated = True,
             word_count_actual = 3,
             keywords_used = []\<rparr>,
        [(Writer_agent,
          writer_task_text ''electric vehicles'' ''article'' ''general'' (decimal_of_int 500)
            ''professional'' None
            (Some ''Key Facts: \<newline>Credible Sources: \<newline>Key Insights: ''))])"
proof -
  have k: "parse_research_result [] ''electric vehicles'' ''key_facts'' = Some (StrList [])"
    by (simp add: parse_research_result_def extract_empty_text)
  have s: "parse_research_result [] ''electric vehicles'' ''sources'' = Some (StrList [])"
    by (simp add: parse_research_result_def extract_empty_text)
  have i: "parse_research_result [] ''electric vehicles'' ''insights'' = Some (StrList [])"
    by (simp add: parse_research_result_def extract_empty_text)
  have w: "stub_llm [] ''one two three'' Writer_agent
        (writer_task_text ''electric vehicles'' ''article'' ''general'' (decimal_of_int 500)
           ''professional'' None
           (Some ''Key Facts: \<newline>Credible Sources: \<newline>Key Insights: '')) = Inr ''one two three''"
    by (simp add: stub_llm_def)
  from empty_research_gives_label_lines
      [where rd = "parse_research_result [] ''electric vehicles''"
        and llm = "stub_llm [] ''one two three''" and t = "''electric vehicles''"
        and ct = "''article''" and ta = "''general''" and wc = 500
        and tn = "''professional''" and kws = None and result = "''one two three''"
        and log = "[]", OF k s i strip_ev limit_500 w]
    k strip_ev limit_500 w strip_three split_three
  show ?thesis
    by simp
qed

text \<open>
  The block is not the empty string in that case (C5 as first stated): a completion
  that returns the empty text yields empty lists under all three keys, and the block
  built from that research result is the three label lines.
\<close>

theorem empty_research_block_counterexample:
  "parse_research_result [] ''electric vehicles'' ''key_facts'' = Some (StrList [])
   \<and> parse_research_result [] ''electric vehicles'' ''sources'' = Some (StrList [])
   \<and> parse_research_result [] ''electric vehicles'' ''insights'' = Some (StrList [])
   \<and> prepare_research_requirements (parse_research_result [] ''electric vehicles'')
       = ''Key Facts: \<newline>Credible Sources: \<newline>Key Insights: ''
   \<and> prepare_research_requirements (parse_research_result [] ''electric vehicles'') \<noteq> []"
  by (simp add: parse_research_result_def prepare_research_requirements_def
      extract_empty_text)

section \<open>The draft result\<close>

text \<open>
  C2. In every record that \<open>create_content\<close> returns, \<open>word_count_actual\<close> is the number
  of tokens of \<open>draft_content\<close> as \<open>split()\<close> finds them, and those tokens are the
  non-empty pieces between whitespace characters. The requested \<open>word_count\<close> is any
  integer and plays no part in the count.
\<close>

theorem word_count_actual_counts_tokens:
  assumes "create_content llm now t ct ta wc tn kws depth log = (Inr r, log')"
  shows "word_count_actual (content r) = int (length (py_split (draft_content (content r))))
         \<and> py_split (draft_content (content r)) =
             filter (\<lambda>w. w \<noteq> []) (split_where py_isspace (draft_content (content r)))"
proof -
  from assms obtain rd log1 where
    "create_draft llm t ct ta wc tn kws rd log1 = (Inr (content r), log')"
    by (auto simp: create_content_def split: prod.splits sum.splits)
  then have "word_count_actual (content r) =
      int (length (py_split (draft_content (content r))))"
    by (rule create_draft_content(1))
  then show ?thesis
    by (simp add: py_split_pieces)
qed

theorem word_count_actual_counts_tokens_witness:
  "create_content (stub_llm ''Fact A'' ''one two three'') ''2026-11-03T10:00:00''
       ''electric vehicles'' ''article'' ''general'' 500 ''professional'' None
       ''comprehensive'' [] =
     (Inr \<lparr>final_result.topic = ''electric vehicles'',
           content_type = ''article'',
           target_audience = ''general'',
           word_count = 500,
           tone = ''professional'',
           keywords = None,
           research_data = parse_research_result ''Fact A'' ''electric vehicles'',
           content = \<lparr>draft_content = ''one two three'',
                       research_incorporated = True,
                       word_count_actual = 3,
                       keywords_used = []\<rparr>,
           creation_timestamp = ''2026-11-03T10:00:00'',
           status = ''completed''\<rparr>,
      [(Research_agent,
        research_task_description ''electric vehicles'' ''comprehensive'' ''article''
          ''general''),
       (Writer_agent,
        writer_task_text ''electric vehicles'' ''article'' ''general'' (decimal_of_int 500)
          ''professional'' None
          (Some (prepare_research_requirements
                   (parse_research_result ''Fact A'' ''electric vehicles''))))])
   \<and> int (length (py_split ''one two three'')) = 3
   \<and> py_split ''one two three'' = [''one'', ''two'', ''three'']
   \<and> filter (\<lambda>w. w \<noteq> []) (split_where py_isspace ''one two three'')
       = [''one'', ''two'', ''three'']"
proof -
  have h: "create_content (stub_llm ''Fact A'' ''one two three'') ''2026-11-03T10:00:00''
       ''electric vehicles'' ''article'' ''general'' 500 ''professional'' None
       ''comprehensive'' [] =
     (Inr \<lparr>final_result.topic = ''electric vehicles'',
           content_type = ''article'',
           target_audience = ''general'',
           word_count = 500,
           tone = ''professional'',
           keywords = None,
           research_data = parse_research_result ''Fact A'' ''electric vehicles'',
           content = \<lparr>draft_content = ''one two three'',
                       research_incorporated = True,
                       word_count_actual = 3,
                       keywords_used = []\<rparr>,
           creation_timestamp = ''2026-11-03T10:00:00'',
           status = ''completed''\<rparr>,
      [(Research_agent,
        research_task_description ''electric vehicles'' ''comprehensive'' ''article''
          ''general''),
       (Writer_agent,
        writer_task_text ''electric vehicles'' ''article'' ''general'' (decimal_of_int 500)
          ''professional'' None
          (Some (prepare_research_requirements
                   (parse_research_result ''Fact A'' ''electric vehicles''))))])"
    by (simp add: create_content_call [OF strip_ev] create_draft_call [OF strip_ev limit_500]
        stub_llm_def strip_three split_three)
  from word_count_actual_counts_tokens [OF h] h split_three show ?thesis
    by (simp add: py_isspace_def)
qed

text \<open>
  C10. Whenever the Draft step succeeds, its result has \<open>research_incorporated = True\<close>,
  whatever the research dictionary holds, and \<open>keywords_used\<close> is the requested keyword
  list, or the empty list when no keywords were given (\<open>None\<close>; an empty list is its
  own value).
\<close>

theorem draft_flags:
  assumes "create_draft llm t ct ta wc tn kws rd log = (Inr d, log')"
  shows "research_incorporated d = True
         \<and> keywords_used d = (case kws of None \<Rightarrow> [] | Some ks \<Rightarrow> ks)"
  using create_draft_content(2,3) [OF assms] by simp

theorem draft_flags_witness:
  "create_draft (stub_llm ''Fact A'' ''one two three'') ''electric vehicles'' ''article''
       ''general'' 500 ''professional'' (Some [''EV'', ''battery'']) Map.empty [] =
     (Inr \<lparr>draft_content = ''one two three'',
           research_incorporated = True,
           word_count_actual = 3,
           keywords_used = [''EV'', ''battery'']\<rparr>,
      [(Writer_agent,
        writer_task_text ''electric vehicles'' ''article'' ''general'' (decimal_of_int 500)
          ''professional'' (Some [''EV'', ''battery''])
          (Some (prepare_research_requirements Map.empty)))])
   \<and> research_incorporated
        \<lparr>draft_content = ''one two three'',
         research_incorporated = True,
         word_count_actual = 3,
         keywords_used = [''EV'', ''battery'']\<rparr> = True
   \<and> keywords_used
        \<lparr>draft_content = ''one two three'',
         research_incorporated = True,
         word_count_actual = 3,
         keywords_used = [''EV'', ''battery'']\<rparr> = [''EV'', ''battery'']"
proof -
  have h: "create_draft (stub_llm ''Fact A'' ''one two three'') ''electric vehicles''
       ''article'' ''general'' 500 ''professional'' (Some [''EV'', ''battery'']) Map.empty [] =
     (Inr \<lparr>draft_content = ''one two three'',
           research_incorporated = True,
           word_count_actual = 3,
           keywords_used = [''EV'', ''battery'']\<rparr>,
      [(Writer_agent,
        writer_task_text ''electric vehicles'' ''article'' ''general'' (decimal_of_int 500)
          ''professional'' (Some [''EV'', ''battery''])
          (Some (prepare_research_requirements Map.empty)))])"
    by (simp add: create_draft_call [OF strip_ev limit_500] stub_llm_def strip_three
        split_three)
  from draft_flags [OF h] h show ?thesis
    by simp
qed

section \<open>Error handling and ordering of the pipeline\<close>

text \<open>
  C3. A topic that is empty after trimming whitespace makes \<open>create_content\<close> raise
  \<open>ValueError\<close> (the invalid-input error) with the call log unchanged: no completion
  call is made for the Research agent or for the Writer agent.
\<close>

theorem empty_topic_raises_before_any_call:
  "py_strip t = [] \<Longrightarrow>
   create_content llm now t ct ta wc tn kws depth log =
     (Inl (ValueError ''Topic cannot be empty''), log)"
  by (simp add: create_content_def conduct_research_def research_topic_empty)

theorem empty_topic_raises_before_any_call_witness:
  "py_strip ''  '' = [] \<and>
   create_content (\<lambda>a p. Inr ''text'') ''2026-11-03T10:00:00'' ''  '' ''article'' ''general''
       1000 ''professional'' None ''comprehensive'' [] =
     (Inl (ValueError ''Topic cannot be empty''), [])"
proof -
  have h: "py_strip ''  '' = []"
    by (simp add: py_strip_def py_isspace_def)
  from h empty_topic_raises_before_any_call [OF h] show ?thesis
    by simp
qed

text \<open>
  C4. When the Research agent's completion call raises, \<open>create_content\<close> raises the
  same exception unchanged, returns no record, and the call log has gained the
  Research call only: the Writer is never called.
\<close>

theorem research_failure_aborts:
  assumes "py_strip t \<noteq> []"
    and "llm Research_agent (research_task_description t depth ct ta) = Inl e"
  shows "create_content llm now t ct ta wc tn kws depth log =
           (Inl e, log @ [(Research_agent, research_task_description t depth ct ta)])"
  using assms by (simp add: create_content_call)

theorem research_failure_aborts_witness:
  "py_strip ''electric vehicles'' \<noteq> []
   \<and> failing_llm Research_agent
        (research_task_description ''electric vehicles'' ''comprehensive'' ''article''
           ''general'') = Inl (UpstreamError ''rate limit exceeded'')
   \<and> create_content failing_llm ''2026-11-03T10:00:00'' ''electric vehicles'' ''article''
        ''general'' 500 ''professional'' None ''comprehensive'' [] =
       (Inl (UpstreamError ''rate limit exceeded''),
        [(Research_agent,
          research_task_description ''electric vehicles'' ''comprehensive'' ''article''
            ''general'')])"
proof -
  have f: "failing_llm Research_agent
        (research_task_description ''electric vehicles'' ''comprehensive'' ''article''
           ''general'') = Inl (UpstreamError ''rate limit exceeded'')"
    by (simp add: failing_llm_def)
  from research_failure_aborts [where llm = failing_llm and t = "''electric vehicles''"
      and depth = "''comprehensive''" and ct = "''article''" and ta = "''general''"
      and now = "''2026-11-03T10:00:00''" and wc = 500 and tn = "''professional''"
      and kws = None and log = "[]", OF strip_ev f] strip_ev f
  show ?thesis by simp
qed

text \<open>
  C6. For a topic that is not blank, the calls that \<open>create_content\<close> adds to the log
  start with the Research call. The Writer call follows only when the Research call
  has returned its text; it is left out when the word count has more digits than
  \<open>str\<close> converts, since building the prompt raises then. The Writer's prompt is built
  from the research result parsed from that text: the requirements block of that
  result stands in the prompt, after the label for additional requirements.
\<close>

theorem research_precedes_draft:
  assumes "py_strip t \<noteq> []"
  shows "snd (create_content llm now t ct ta wc tn kws depth log) =
           log @ (Research_agent, research_task_description t depth ct ta)
             # (case llm Research_agent (research_task_description t depth ct ta) of
                  Inl e \<Rightarrow> []
                | Inr result \<Rightarrow>
                    if 10 ^ int_max_str_digits \<le> \<bar>wc\<bar> then []
                    else [(Writer_agent,
                           writer_task_text t ct ta (decimal_of_int wc) tn kws
                             (Some (prepare_research_requirements
                                      (parse_research_result result t))))])
         \<and> (\<forall>result. \<exists>pre post.
               writer_task_text t ct ta (decimal_of_int wc) tn kws
                 (Some (prepare_research_requirements (parse_research_result result t))) =
               pre @ ''- Additional Requirements: ''
                 @ prepare_research_requirements (parse_research_result result t) @ post)"
proof (intro conjI allI)
  show "snd (create_content llm now t ct ta wc tn kws depth log) =
           log @ (Research_agent, research_task_description t depth ct ta)
             # (case llm Research_agent (research_task_description t depth ct ta) of
                  Inl e \<Rightarrow> []
                | Inr result \<Rightarrow>
                    if 10 ^ int_max_str_digits \<le> \<bar>wc\<bar> then []
                    else [(Writer_agent,
                           writer_task_text t ct ta (decimal_of_int wc) tn kws
                             (Some (prepare_research_requirements
                                      (parse_research_result result t))))])"
  proof (cases "10 ^ int_max_str_digits \<le> \<bar>wc\<bar>")
    case True
    have "snd (case create_draft llm t ct ta wc tn kws rd lg of
                 (Inl e, log2) \<Rightarrow> (Inl e, log2)
               | (Inr content_result, log2) \<Rightarrow> (Inr (f content_result), log2)) = lg"
      for rd lg and f :: "draft_result \<Rightarrow> final_result"
      using create_draft_at_limit [OF assms True, of llm ct ta tn kws rd lg]
      by (auto split: prod.splits sum.splits)
    with assms True show ?thesis
      by (simp add: create_content_call split: sum.splits)
  next
    case False
    then have "\<bar>wc\<bar> < 10 ^ int_max_str_digits"
      by simp
    with assms False show ?thesis
      by (simp add: create_content_call create_draft_call split: sum.splits)
  qed
next
  fix result
  show "\<exists>pre post.
          writer_task_text t ct ta (decimal_of_int wc) tn kws
            (Some (prepare_research_requirements (parse_research_result result t))) =
          pre @ ''- Additional Requirements: ''
            @ prepare_research_requirements (parse_research_result result t) @ post"
    by (rule writer_task_text_holds_requirements) (rule requirements_of_parse_not_empty)
qed

theorem research_precedes_draft_witness:
  "py_strip ''electric vehicles'' \<noteq> []
   \<and> snd (create_content (stub_llm ''Fact A'' ''one two three'') ''2026-11-03T10:00:00''
            ''electric vehicles'' ''article'' ''general'' 500 ''professional'' None
            ''comprehensive'' []) =
       [(Research_agent,
         research_task_description ''electric vehicles'' ''comprehensive'' ''article''
           ''general''),
        (Writer_agent,
         writer_task_text ''electric vehicles'' ''article'' ''general'' (decimal_of_int 500)
           ''professional'' None
           (Some (prepare_research_requirements
                    (parse_research_result ''Fact A'' ''electric vehicles''))))]
   \<and> prepare_research_requirements (parse_research_result ''Fact A'' ''electric vehicles'')
       = ''Key Facts: Fact A\<newline>Credible Sources: \<newline>Key Insights: ''"
proof -
  have below: "\<not> 10 ^ int_max_str_digits \<le> \<bar>500 :: int\<bar>"
    using limit_500 by simp
  have block: "prepare_research_requirements
        (parse_research_result ''Fact A'' ''electric vehicles'')
      = ''Key Facts: Fact A\<newline>Credible Sources: \<newline>Key Insights: ''"
    by code_simp
  from research_precedes_draft [OF strip_ev, of "stub_llm ''Fact A'' ''one two three''"
      "''2026-11-03T10:00:00''" "''article''" "''general''" 500 "''professional''" None
      "''comprehensive''" "[]"]
  have "snd (create_content (stub_llm ''Fact A'' ''one two three'') ''2026-11-03T10:00:00''
            ''electric vehicles'' ''article'' ''general'' 500 ''professional'' None
            ''comprehensive'' []) =
       [(Research_agent,
         research_task_description ''electric vehicles'' ''comprehensive'' ''article''
           ''general''),
        (Writer_agent,
         writer_task_text ''electric vehicles'' ''article'' ''general'' (decimal_of_int 500)
           ''professional'' None
           (Some (prepare_research_requirements
                    (parse_research_result ''Fact A'' ''electric vehicles''))))]"
    using below by (simp add: stub_llm_def)
  with strip_ev block show ?thesis
    by (intro conjI)
qed

text \<open>
  C9. A request whose \<open>X-API-Key\<close> header is absent or differs from the configured
  secret is answered with the 401 exception of \<open>get_api_key\<close>; the call log is
  unchanged, so \<open>create_content\<close> and both pipeline steps never run.
\<close>

theorem bad_api_key_rejected_before_orchestrator:
  "api_key \<noteq> Some secret_key \<Longrightarrow>
   create_content_endpoint llm now secret_key api_key request log =
     (Inl (HTTPException 401 ''Invalid API Key''), log)"
  by (simp add: create_content_endpoint_def get_api_key_def)

theorem bad_api_key_rejected_before_orchestrator_witness:
  "Some ''guess'' \<noteq> Some ''s3cret''
   \<and> create_content_endpoint (stub_llm ''Fact A'' ''one two three'') ''2026-11-03T10:00:00''
        ''s3cret'' (Some ''guess'')
        \<lparr>topic = ''electric vehicles'', content_type = ''article'',
         target_audience = ''general'', word_count = 500, tone = ''professional'',
         keywords = None, research_depth = ''comprehensive''\<rparr> [] =
       (Inl (HTTPException 401 ''Invalid API Key''), [])
   \<and> create_content_endpoint (stub_llm ''Fact A'' ''one two three'') ''2026-11-03T10:00:00''
        ''s3cret'' None
        \<lparr>topic = ''electric vehicles'', content_type = ''article'',
         target_audience = ''general'', word_count = 500, tone = ''professional'',
         keywords = None, research_depth = ''comprehensive''\<rparr> [] =
       (Inl (HTTPException 401 ''Invalid API Key''), [])"
proof -
  have a: "Some ''guess'' \<noteq> Some ''s3cret''"
    by simp
  have b: "None \<noteq> Some ''s3cret''"
    by simp
  from bad_api_key_rejected_before_orchestrator [OF a]
    bad_api_key_rejected_before_orchestrator [OF b] a
  show ?thesis by simp
qed

section \<open>The result extractor and the research result\<close>

text \<open>
  C7. The extractor splits the text at newlines (joining the lines with newlines gives
  the text back). Each of the buckets \<open>key_facts\<close>, \<open>sources\<close>, \<open>insights\<close> and
  \<open>recommendations\<close> holds, in the order of the text, the whitespace-trimmed copy of
  every line in which some stretch lowers to one of the bucket's keywords, and of no
  other line.
\<close>

theorem buckets_hold_trimmed_matching_lines:
  "py_join [CHR 0x0A] (py_split_on CHR 0x0A text) = text
   \<and> extract_key_facts text =
       map py_strip
         (filter (\<lambda>line. \<exists>k \<in> set [''fact'', ''statistic'', ''data'', ''figure''].
                           \<exists>pre mid post. line = pre @ mid @ post \<and> py_lower mid = k)
            (py_split_on CHR 0x0A text))
   \<and> extract_sources text =
       map py_strip
         (filter (\<lambda>line. \<exists>k \<in> set [''source'', ''reference'', ''study'', ''report''].
                           \<exists>pre mid post. line = pre @ mid @ post \<and> py_lower mid = k)
            (py_split_on CHR 0x0A text))
   \<and> extract_insights text =
       map py_strip
         (filter (\<lambda>line. \<exists>k \<in> set [''insight'', ''finding'', ''discovery'', ''observation''].
                           \<exists>pre mid post. line = pre @ mid @ post \<and> py_lower mid = k)
            (py_split_on CHR 0x0A text))
   \<and> extract_recommendations text =
       map py_strip
         (filter (\<lambda>line. \<exists>k \<in> set [''recommend'', ''suggest'', ''advise'', ''propose''].
                           \<exists>pre mid post. line = pre @ mid @ post \<and> py_lower mid = k)
            (py_split_on CHR 0x0A text))"
proof (intro conjI)
  show "py_join [CHR 0x0A] (py_split_on CHR 0x0A text) = text"
    by (simp add: py_split_on_def join_split_where)
  show "extract_key_facts text =
       map py_strip
         (filter (\<lambda>line. \<exists>k \<in> set [''fact'', ''statistic'', ''data'', ''figure''].
                           \<exists>pre mid post. line = pre @ mid @ post \<and> py_lower mid = k)
            (py_split_on CHR 0x0A text))"
    unfolding extract_key_facts_def keyword_lines_filter list_ex_iff contains_lower_iff
    by simp
  show "extract_sources text =
       map py_strip
         (filter (\<lambda>line. \<exists>k \<in> set [''source'', ''reference'', ''study'', ''report''].
                           \<exists>pre mid post. line = pre @ mid @ post \<and> py_lower mid = k)
            (py_split_on CHR 0x0A text))"
    unfolding extract_sources_def keyword_lines_filter list_ex_iff contains_lower_iff
    by simp
  show "extract_insights text =
       map py_strip
         (filter (\<lambda>line. \<exists>k \<in> set [''insight'', ''finding'', ''discovery'', ''observation''].
                           \<exists>pre mid post. line = pre @ mid @ post \<and> py_lower mid = k)
            (py_split_on CHR 0x0A text))"
    unfolding extract_insights_def keyword_lines_filter list_ex_iff contains_lower_iff
    by simp
  show "extract_recommendations text =
       map py_strip
         (filter (\<lambda>line. \<exists>k \<in> set [''recommend'', ''suggest'', ''advise'', ''propose''].
                           \<exists>pre mid post. line = pre @ mid @ post \<and> py_lower mid = k)
            (py_split_on CHR 0x0A text))"
    unfolding extract_recommendations_def keyword_lines_filter list_ex_iff contains_lower_iff
    by simp
qed

text \<open>
  On a text of three lines: the first line lands in two buckets, the second in none,
  and the third is stored without its surrounding blanks.
\<close>

theorem buckets_hold_trimmed_matching_lines_witness:
  "extract_key_facts ''Data source\<newline>hello\<newline>  Key FINDING: x '' = [''Data source'']
   \<and> extract_sources ''Data source\<newline>hello\<newline>  Key FINDING: x '' = [''Data source'']
   \<and> extract_insights ''Data source\<newline>hello\<newline>  Key FINDING: x '' = [''Key FINDING: x'']
   \<and> py_split_on CHR 0x0A ''Data source\<newline>hello\<newline>  Key FINDING: x ''
       = [''Data source'', ''hello'', ''  Key FINDING: x '']"
proof -
  have e: "extract_key_facts ''Data source\<newline>hello\<newline>  Key FINDING: x '' = [''Data source'']
   \<and> extract_sources ''Data source\<newline>hello\<newline>  Key FINDING: x '' = [''Data source'']
   \<and> extract_insights ''Data source\<newline>hello\<newline>  Key FINDING: x '' = [''Key FINDING: x'']
   \<and> py_split_on CHR 0x0A ''Data source\<newline>hello\<newline>  Key FINDING: x ''
       = [''Data source'', ''hello'', ''  Key FINDING: x '']"
    by code_simp
  from buckets_hold_trimmed_matching_lines [of "''Data source\<newline>hello\<newline>  Key FINDING: x ''"] e
  show ?thesis
    by fast
qed

text \<open>
  A bucket does not hold the matching lines themselves (C7 as first stated): the one
  line of this text matches \<open>fact\<close>, and the bucket holds its trimmed copy, not the line.
\<close>

theorem bucket_lines_are_trimmed_counterexample:
  "py_split_on CHR 0x0A ''  Fact one'' = [''  Fact one'']
   \<and> py_contains ''fact'' (py_lower ''  Fact one'')
   \<and> extract_key_facts ''  Fact one'' = [''Fact one'']
   \<and> ''  Fact one'' \<notin> set (extract_key_facts ''  Fact one'')"
  by code_simp

text \<open>
  C8. The research result that the Research step returns is a dictionary with exactly
  the keys \<open>topic\<close>, \<open>research_findings\<close>, \<open>key_facts\<close>, \<open>sources\<close>, \<open>insights\<close> and
  \<open>recommendations\<close>: the topic, the raw text of the completion under
  \<open>research_findings\<close>, and four lists of strings extracted from that text.
\<close>

theorem research_result_fields:
  assumes "research_topic llm t depth ct ta log = (Inr rd, log')"
  shows "dom rd = {''topic'', ''research_findings'', ''key_facts'', ''sources'',
                   ''insights'', ''recommendations''}
         \<and> rd ''topic'' = Some (Str t)
         \<and> (\<exists>text. llm Research_agent (research_task_description t depth ct ta) = Inr text
               \<and> rd ''research_findings'' = Some (Str text)
               \<and> rd ''key_facts'' = Some (StrList (extract_key_facts text))
               \<and> rd ''sources'' = Some (StrList (extract_sources text))
               \<and> rd ''insights'' = Some (StrList (extract_insights text))
               \<and> rd ''recommendations'' = Some (StrList (extract_recommendations text)))"
proof -
  have "py_strip t \<noteq> []"
    using assms by (auto simp: research_topic_empty)
  with assms obtain result where
    call: "llm Research_agent (research_task_description t depth ct ta) = Inr result"
    and rd: "rd = parse_research_result result t"
    by (auto simp: research_topic_call split: sum.splits)
  have keys: "dom (parse_research_result result t) =
      {''topic'', ''research_findings'', ''key_facts'', ''sources'', ''insights'',
       ''recommendations''}"
    by (auto simp: parse_research_result_def)
  have vals: "parse_research_result result t ''topic'' = Some (Str t)"
    "parse_research_result result t ''research_findings'' = Some (Str result)"
    "parse_research_result result t ''key_facts'' = Some (StrList (extract_key_facts result))"
    "parse_research_result result t ''sources'' = Some (StrList (extract_sources result))"
    "parse_research_result result t ''insights'' = Some (StrList (extract_insights result))"
    "parse_research_result result t ''recommendations''
          = Some (StrList (extract_recommendations result))"
    by (simp_all add: parse_research_result_def)
  show ?thesis
    unfolding rd by (intro conjI exI [of _ result]) (simp_all add: keys vals call)
qed

theorem research_result_fields_witness:
  "research_topic (stub_llm ''Fact A'' ''one two three'') ''electric vehicles''
       ''comprehensive'' ''article'' ''general'' [] =
     (Inr (parse_research_result ''Fact A'' ''electric vehicles''),
      [(Research_agent,
        research_task_description ''electric vehicles'' ''comprehensive'' ''article''
          ''general'')])
   \<and> dom (parse_research_result ''Fact A'' ''electric vehicles'') =
       {''topic'', ''research_findings'', ''key_facts'', ''sources'', ''insights'',
        ''recommendations''}
   \<and> parse_research_result ''Fact A'' ''electric vehicles'' ''topic''
       = Some (Str ''electric vehicles'')"
proof -
  have h: "research_topic (stub_llm ''Fact A'' ''one two three'') ''electric vehicles''
       ''comprehensive'' ''article'' ''general'' [] =
     (Inr (parse_research_result ''Fact A'' ''electric vehicles''),
      [(Research_agent,
        research_task_description ''electric vehicles'' ''comprehensive'' ''article''
          ''general'')])"
    by (simp add: research_topic_call strip_ev stub_llm_def)
  from research_result_fields [OF h] h show ?thesis
    by simp
qed

text \<open>
  The research result has no key \<open>raw_text\<close> (C8 as first stated): the raw text is
  stored under \<open>research_findings\<close>.
\<close>

theorem research_result_field_names_counterexample:
  "research_topic (stub_llm ''Fact A'' ''one two three'') ''electric vehicles''
       ''comprehensive'' ''article'' ''general'' [] =
     (Inr (parse_research_result ''Fact A'' ''electric vehicles''),
      [(Research_agent,
        research_task_description ''electric vehicles'' ''comprehensive'' ''article''
          ''general'')])
   \<and> parse_research_result ''Fact A'' ''electric vehicles'' ''raw_text'' = None
   \<and> parse_research_result ''Fact A'' ''electric vehicles'' ''research_findings''
       = Some (Str ''Fact A'')"
  by (simp add: research_topic_call strip_ev stub_llm_def parse_research_result_def)

end
